theory Spec2Isabelle
  imports Complex_Main
begin

section \<open>Values, errors and library functions\<close>

text \<open>
  The notebook \<^verbatim>\<open>Bias-Variance-Trade-Off.ipynb\<close> works on feature matrices (a list of
  rows), label vectors and grids of penalty values. Numbers are modelled as exact reals;
  a stored floating-point result is a \<open>pyfloat\<close>, which is either a finite value or NaN.
  A Python exception is the value \<open>Raised name\<close>, with the name of its class.
\<close>

type_synonym vec = "real list"
type_synonym matrix = "real list list"

datatype error = Raised string

abbreviation ValueError :: error where
  "ValueError \<equiv> Raised ''ValueError''"

abbreviation IndexError :: error where
  "IndexError \<equiv> Raised ''IndexError''"

datatype pyfloat = NaN | Fin real

fun isnan :: "pyfloat \<Rightarrow> bool" where
  "isnan NaN = True"
| "isnan (Fin x) = False"

text \<open>The comparison \<open><=\<close> of floating-point values: false as soon as one side is NaN.\<close>

fun fle :: "pyfloat \<Rightarrow> pyfloat \<Rightarrow> bool" where
  "fle (Fin a) (Fin b) = (a \<le> b)"
| "fle NaN y = False"
| "fle (Fin a) NaN = False"

text \<open>
  \<^verbatim>\<open>xs[i]\<close> for a list and a non-negative index: IndexError out of range.
\<close>

definition getitem :: "'a list \<Rightarrow> nat \<Rightarrow> error + 'a" where
  "getitem xs i = (if i < length xs then Inr (xs ! i) else Inl IndexError)"

text \<open>
  Modelled from the spec: \<^verbatim>\<open>sklearn.metrics.mean_squared_error\<close> is library code, not in
  the repository. It is the population mean of the squared differences,
  \<open>sum((y_true - y_pred)^2) / n\<close>. scikit-learn checks its inputs first and raises
  ValueError when the two sequences differ in length or have no element.
\<close>

definition mean_squared_error :: "vec \<Rightarrow> vec \<Rightarrow> error + real" where
  "mean_squared_error y_true y_pred =
     (if length y_true \<noteq> length y_pred then Inl ValueError
      else if y_true = [] then Inl ValueError
      else Inr (sum_list (map2 (\<lambda>t p. (t - p)\<^sup>2) y_true y_pred) / real (length y_true)))"

text \<open>
  \<^verbatim>\<open>math.sqrt\<close>: ValueError (math domain error) on a negative argument. The result is
  the exact square root: the rounding of Python's floating-point numbers is not
  modelled, so nothing here speaks of rounding errors or tolerances.
\<close>

definition math_sqrt :: "real \<Rightarrow> error + real" where
  "math_sqrt x = (if x < 0 then Inl ValueError else Inr (sqrt x))"

text \<open>
  Modelled from the spec: \<^verbatim>\<open>numpy.argmin\<close> is library code, not in the repository. It
  returns the index of the first occurrence of the minimum (the spec's "first occurrence
  from the underlying minimum-index function"), and raises ValueError on an empty
  sequence. The scan is NumPy's: from the left, it keeps the smallest value \<open>mp\<close> seen
  and its index, and moves to an element \<open>x\<close> unless \<open>mp <= x\<close>. NumPy propagates NaN:
  a NaN counts as minimal and ends the scan, so the index of the first NaN is returned
  when there is one.
\<close>

fun argmin_scan :: "pyfloat \<Rightarrow> nat \<Rightarrow> nat \<Rightarrow> pyfloat list \<Rightarrow> nat" where
  "argmin_scan mp min_ind i [] = min_ind"
| "argmin_scan mp min_ind i (x # xs) =
     (if \<not> fle mp x
      then (if isnan x then i else argmin_scan x i (Suc i) xs)
      else argmin_scan mp min_ind (Suc i) xs)"

fun np_argmin :: "pyfloat list \<Rightarrow> error + nat" where
  "np_argmin [] = Inl ValueError"
| "np_argmin (x # xs) = Inr (if isnan x then 0 else argmin_scan x 0 1 xs)"

section \<open>The solver\<close>

text \<open>
  \<^verbatim>\<open>linear_model.Ridge\<close> and \<^verbatim>\<open>linear_model.Lasso\<close> are scikit-learn estimators, external
  to the repository. An estimator is taken as a parameter: \<open>fit\<close> receives the penalty
  (\<^verbatim>\<open>alpha\<close>), the features and the labels, and gives the fitted model or raises;
  \<open>predict\<close> gives the predictions of a fitted model on a feature matrix or raises.
  The fields \<open>coef\<close> and \<open>intercept\<close> of a fitted model are scikit-learn's
  \<^verbatim>\<open>coef_\<close> and \<^verbatim>\<open>intercept_\<close>.
\<close>

record fitted =
  coef :: vec
  intercept :: real

record solver =
  fit :: "real \<Rightarrow> matrix \<Rightarrow> vec \<Rightarrow> error + fitted"
  predict :: "fitted \<Rightarrow> matrix \<Rightarrow> error + vec"

record linear_model =
  Ridge :: solver
  Lasso :: solver

section \<open>Plotting\<close>

text \<open>
  The calls that \<^verbatim>\<open>plot_regularization\<close> makes on matplotlib, in order. Rendering is the
  side effect of the notebook's evaluation functions; it is modelled as the list of the
  calls made, each taken to succeed.
\<close>

datatype plt_cmd =
    PlotCurve "real list" "pyfloat list" "string option" string
  | PlotCoefs "real list" "vec list"
  | Axvline real string string
  | Legend
  | Xlabel string
  | Ylabel string
  | Title string
  | Show

definition plot_regularization ::
  "real list \<Rightarrow> pyfloat list \<Rightarrow> pyfloat list \<Rightarrow> vec list \<Rightarrow> real \<Rightarrow> string \<Rightarrow> plt_cmd list" where
  "plot_regularization l train_RMSE test_RMSE coefs min_idx title =
     [PlotCurve l test_RMSE (Some ''red'') ''Test RMSE'',
      PlotCurve l train_RMSE None ''Train RMSE'',
      Axvline min_idx ''black'' ''--'',
      Legend,
      Xlabel ''Regularization parameter'',
      Ylabel ''Root Mean Square Error'',
      Title title,
      Show,
      PlotCoefs l coefs,
      Axvline min_idx ''black'' ''--'',
      Title (''Model coefficient values '' @ [CHR 0x0A] @ '' vs. regularizaton parameter''),
      Xlabel ''Regularization parameter'',
      Ylabel ''Model coefficient value'',
      Show]"

definition rmse_title :: string where
  "rmse_title =
     ''Train and test root mean square error '' @ [CHR 0x0A] @ '' vs. regularization parameter''"

section \<open>The evaluation loops\<close>

text \<open>The three lists that the loop of an evaluation function appends to.\<close>

record lists =
  train_RMSE :: "pyfloat list"
  test_RMSE :: "pyfloat list"
  coefs :: "vec list"

definition no_lists :: lists where
  "no_lists = \<lparr>train_RMSE = [], test_RMSE = [], coefs = []\<rparr>"

text \<open>
  What the evaluation function hands back to the notebook: the matplotlib calls it made
  and the value it returned, or the exception it raised.
\<close>

record outcome =
  plotted :: "plt_cmd list"
  returned :: "error + (real \<times> pyfloat)"

text \<open>
  \<^verbatim>\<open>for reg in l2:\<close> of \<^verbatim>\<open>test_regularization_l2\<close>. Each iteration fits a Ridge model,
  appends its coefficients, predicts on the training set and appends
  \<^verbatim>\<open>sklm.mean_squared_error(y_train, y_score_train)\<close>, then predicts on the test set and
  appends \<^verbatim>\<open>sklm.mean_squared_error(y_test, y_score)\<close>. An exception ends the loop.
\<close>

fun l2_loop ::
  "linear_model \<Rightarrow> matrix \<Rightarrow> vec \<Rightarrow> matrix \<Rightarrow> vec \<Rightarrow> real list \<Rightarrow> lists \<Rightarrow> error + lists" where
  "l2_loop lm x_train y_train x_test y_test [] acc = Inr acc"
| "l2_loop lm x_train y_train x_test y_test (reg # rest) acc =
     (case fit (Ridge lm) reg x_train y_train of
        Inl e \<Rightarrow> Inl e
      | Inr lin_mod \<Rightarrow>
          (case predict (Ridge lm) lin_mod x_train of
             Inl e \<Rightarrow> Inl e
           | Inr y_score_train \<Rightarrow>
               (case mean_squared_error y_train y_score_train of
                  Inl e \<Rightarrow> Inl e
                | Inr tr \<Rightarrow>
                    (case predict (Ridge lm) lin_mod x_test of
                       Inl e \<Rightarrow> Inl e
                     | Inr y_score \<Rightarrow>
                         (case mean_squared_error y_test y_score of
                            Inl e \<Rightarrow> Inl e
                          | Inr te \<Rightarrow>
                              l2_loop lm x_train y_train x_test y_test rest
                                \<lparr>train_RMSE = train_RMSE acc @ [Fin tr],
                                 test_RMSE = test_RMSE acc @ [Fin te],
                                 coefs = coefs acc @ [coef lin_mod]\<rparr>)))))"

text \<open>
  \<^verbatim>\<open>test_regularization_l2\<close>: the loop, then \<^verbatim>\<open>min_idx = np.argmin(test_RMSE)\<close>,
  \<^verbatim>\<open>min_l2 = l2[min_idx]\<close>, \<^verbatim>\<open>min_RMSE = test_RMSE[min_idx]\<close>, the call of
  \<^verbatim>\<open>plot_regularization\<close> and \<^verbatim>\<open>return min_l2, min_RMSE\<close>.
\<close>

definition test_regularization_l2 ::
  "linear_model \<Rightarrow> matrix \<Rightarrow> vec \<Rightarrow> matrix \<Rightarrow> vec \<Rightarrow> real list \<Rightarrow> outcome" where
  "test_regularization_l2 lm x_train y_train x_test y_test l2 =
     (case l2_loop lm x_train y_train x_test y_test l2 no_lists of
        Inl e \<Rightarrow> \<lparr>plotted = [], returned = Inl e\<rparr>
      | Inr acc \<Rightarrow>
          (case np_argmin (test_RMSE acc) of
             Inl e \<Rightarrow> \<lparr>plotted = [], returned = Inl e\<rparr>
           | Inr min_idx \<Rightarrow>
               (case getitem l2 min_idx of
                  Inl e \<Rightarrow> \<lparr>plotted = [], returned = Inl e\<rparr>
                | Inr min_l2 \<Rightarrow>
                    (case getitem (test_RMSE acc) min_idx of
                       Inl e \<Rightarrow> \<lparr>plotted = [], returned = Inl e\<rparr>
                     | Inr min_RMSE \<Rightarrow>
                         \<lparr>plotted = plot_regularization l2 (train_RMSE acc) (test_RMSE acc)
                                      (coefs acc) min_l2 rmse_title,
                          returned = Inr (min_l2, min_RMSE)\<rparr>))))"

text \<open>\<^verbatim>\<open>for reg in l1:\<close> of \<^verbatim>\<open>test_regularization_l1\<close>, with a Lasso model.\<close>

fun l1_loop ::
  "linear_model \<Rightarrow> matrix \<Rightarrow> vec \<Rightarrow> matrix \<Rightarrow> vec \<Rightarrow> real list \<Rightarrow> lists \<Rightarrow> error + lists" where
  "l1_loop lm x_train y_train x_test y_test [] acc = Inr acc"
| "l1_loop lm x_train y_train x_test y_test (reg # rest) acc =
     (case fit (Lasso lm) reg x_train y_train of
        Inl e \<Rightarrow> Inl e
      | Inr lin_mod \<Rightarrow>
          (case predict (Lasso lm) lin_mod x_train of
             Inl e \<Rightarrow> Inl e
           | Inr y_score_train \<Rightarrow>
               (case mean_squared_error y_train y_score_train of
                  Inl e \<Rightarrow> Inl e
                | Inr tr \<Rightarrow>
                    (case predict (Lasso lm) lin_mod x_test of
                       Inl e \<Rightarrow> Inl e
                     | Inr y_score \<Rightarrow>
                         (case mean_squared_error y_test y_score of
                            Inl e \<Rightarrow> Inl e
                          | Inr te \<Rightarrow>
                              l1_loop lm x_train y_train x_test y_test rest
                                \<lparr>train_RMSE = train_RMSE acc @ [Fin tr],
                                 test_RMSE = test_RMSE acc @ [Fin te],
                                 coefs = coefs acc @ [coef lin_mod]\<rparr>)))))"

definition test_regularization_l1 ::
  "linear_model \<Rightarrow> matrix \<Rightarrow> vec \<Rightarrow> matrix \<Rightarrow> vec \<Rightarrow> real list \<Rightarrow> outcome" where
  "test_regularization_l1 lm x_train y_train x_test y_test l1 =
     (case l1_loop lm x_train y_train x_test y_test l1 no_lists of
        Inl e \<Rightarrow> \<lparr>plotted = [], returned = Inl e\<rparr>
      | Inr acc \<Rightarrow>
          (case np_argmin (test_RMSE acc) of
             Inl e \<Rightarrow> \<lparr>plotted = [], returned = Inl e\<rparr>
           | Inr min_idx \<Rightarrow>
               (case getitem l1 min_idx of
                  Inl e \<Rightarrow> \<lparr>plotted = [], returned = Inl e\<rparr>
                | Inr min_l1 \<Rightarrow>
                    (case getitem (test_RMSE acc) min_idx of
                       Inl e \<Rightarrow> \<lparr>plotted = [], returned = Inl e\<rparr>
                     | Inr min_RMSE \<Rightarrow>
                         \<lparr>plotted = plot_regularization l1 (train_RMSE acc) (test_RMSE acc)
                                      (coefs acc) min_l1 rmse_title,
                          returned = Inr (min_l1, min_RMSE)\<rparr>))))"

section \<open>Printing the metrics\<close>

text \<open>
  \<^verbatim>\<open>print_metrics\<close> calls four scikit-learn scorers. \<^verbatim>\<open>mean_squared_error\<close> is defined
  above; the other three are external and taken as parameters.
\<close>

record sklm =
  r2_score :: "vec \<Rightarrow> vec \<Rightarrow> error + real"
  mean_absolute_error :: "vec \<Rightarrow> vec \<Rightarrow> error + real"
  median_absolute_error :: "vec \<Rightarrow> vec \<Rightarrow> error + real"

text \<open>
  What a call of \<^verbatim>\<open>print_metrics\<close> does: the lines it printed (the label and the number
  that \<^verbatim>\<open>str\<close> renders after it), and \<open>Inr ()\<close> when it ran to its end (the function has
  no \<^verbatim>\<open>return\<close>, so it gives \<^verbatim>\<open>None\<close>) or the exception that stopped it.
\<close>

record printout =
  printed :: "(string \<times> real) list"
  result :: "error + unit"

definition print_metrics :: "sklm \<Rightarrow> vec \<Rightarrow> vec \<Rightarrow> printout" where
  "print_metrics sk y_true y_predicted =
     (case r2_score sk y_true y_predicted of
        Inl e \<Rightarrow> \<lparr>printed = [], result = Inl e\<rparr>
      | Inr r2 \<Rightarrow>
     (case mean_squared_error y_true y_predicted of
        Inl e \<Rightarrow> \<lparr>printed = [], result = Inl e\<rparr>
      | Inr mse \<Rightarrow>
     (case mean_squared_error y_true y_predicted of
        Inl e \<Rightarrow> \<lparr>printed = [(''Mean Square Error      = '', mse)], result = Inl e\<rparr>
      | Inr mse2 \<Rightarrow>
     (case math_sqrt mse2 of
        Inl e \<Rightarrow> \<lparr>printed = [(''Mean Square Error      = '', mse)], result = Inl e\<rparr>
      | Inr rmse \<Rightarrow>
     (case mean_absolute_error sk y_true y_predicted of
        Inl e \<Rightarrow> \<lparr>printed = [(''Mean Square Error      = '', mse),
                             (''Root Mean Square Error = '', rmse)], result = Inl e\<rparr>
      | Inr mae \<Rightarrow>
     (case median_absolute_error sk y_true y_predicted of
        Inl e \<Rightarrow> \<lparr>printed = [(''Mean Square Error      = '', mse),
                             (''Root Mean Square Error = '', rmse),
                             (''Mean Absolute Error    = '', mae)], result = Inl e\<rparr>
      | Inr med \<Rightarrow>
          \<lparr>printed = [(''Mean Square Error      = '', mse),
                      (''Root Mean Square Error = '', rmse),
                      (''Mean Absolute Error    = '', mae),
                      (''Median Absolute Error  = '', med),
                      (''R^2                    = '', r2)],
           result = Inr ()\<rparr>))))))"

section \<open>Concrete instances\<close>

text \<open>
  A solver to run the functions on: the closed forms of ridge and lasso regression for
  data with a single feature. With centred sums \<open>sxy\<close> and \<open>sxx\<close> over \<open>n\<close> rows, ridge
  has the coefficient \<open>sxy / (sxx + alpha)\<close>, lasso the soft-thresholded
  \<open>sgn c * max (|c| - alpha) 0 / (sxx / n)\<close> with \<open>c = sxy / n\<close>; the intercept is
  \<open>mean y - coef * mean x\<close>. Prediction is \<open>x * coef + intercept\<close> for each row.
\<close>

definition mean :: "vec \<Rightarrow> real" where
  "mean xs = sum_list xs / real (length xs)"

definition centred_sxy :: "matrix \<Rightarrow> vec \<Rightarrow> real" where
  "centred_sxy X y =
     sum_list (map2 (\<lambda>row t. (hd row - mean (map hd X)) * (t - mean y)) X y)"

definition centred_sxx :: "matrix \<Rightarrow> real" where
  "centred_sxx X = sum_list (map (\<lambda>row. (hd row - mean (map hd X))\<^sup>2) X)"

definition well_shaped1 :: "matrix \<Rightarrow> vec \<Rightarrow> bool" where
  "well_shaped1 X y = (length X = length y \<and> X \<noteq> [] \<and> list_all (\<lambda>row. length row = 1) X)"

definition with_intercept :: "matrix \<Rightarrow> vec \<Rightarrow> real \<Rightarrow> fitted" where
  "with_intercept X y w = \<lparr>coef = [w], intercept = mean y - w * mean (map hd X)\<rparr>"

definition ridge1_fit :: "real \<Rightarrow> matrix \<Rightarrow> vec \<Rightarrow> error + fitted" where
  "ridge1_fit alpha X y =
     (if well_shaped1 X y
      then Inr (with_intercept X y (centred_sxy X y / (centred_sxx X + alpha)))
      else Inl ValueError)"

definition lasso1_fit :: "real \<Rightarrow> matrix \<Rightarrow> vec \<Rightarrow> error + fitted" where
  "lasso1_fit alpha X y =
     (if well_shaped1 X y
      then (let n = real (length y); c = centred_sxy X y / n
            in Inr (with_intercept X y (sgn c * max (\<bar>c\<bar> - alpha) 0 / (centred_sxx X / n))))
      else Inl ValueError)"

definition linear_predict :: "fitted \<Rightarrow> matrix \<Rightarrow> error + vec" where
  "linear_predict m X =
     (if X \<noteq> [] \<and> list_all (\<lambda>row. length row = length (coef m)) X
      then Inr (map (\<lambda>row. sum_list (map2 (*) row (coef m)) + intercept m) X)
      else Inl ValueError)"

definition example_lm :: linear_model where
  "example_lm =
     \<lparr>Ridge = \<lparr>fit = ridge1_fit, predict = linear_predict\<rparr>,
      Lasso = \<lparr>fit = lasso1_fit, predict = linear_predict\<rparr>\<rparr>"

definition shapes_ok :: "vec \<Rightarrow> vec \<Rightarrow> bool" where
  "shapes_ok y_true y_pred = (length y_true = length y_pred \<and> y_true \<noteq> [])"

definition ref_mean_absolute_error :: "vec \<Rightarrow> vec \<Rightarrow> error + real" where
  "ref_mean_absolute_error y_true y_pred =
     (if shapes_ok y_true y_pred
      then Inr (sum_list (map2 (\<lambda>t p. \<bar>t - p\<bar>) y_true y_pred) / real (length y_true))
      else Inl ValueError)"

definition median :: "vec \<Rightarrow> real" where
  "median xs =
     (let s = sort xs; n = length xs
      in if odd n then s ! (n div 2) else (s ! (n div 2 - 1) + s ! (n div 2)) / 2)"

definition ref_median_absolute_error :: "vec \<Rightarrow> vec \<Rightarrow> error + real" where
  "ref_median_absolute_error y_true y_pred =
     (if shapes_ok y_true y_pred
      then Inr (median (map2 (\<lambda>t p. \<bar>t - p\<bar>) y_true y_pred))
      else Inl ValueError)"

definition ref_r2_score :: "vec \<Rightarrow> vec \<Rightarrow> error + real" where
  "ref_r2_score y_true y_pred =
     (if shapes_ok y_true y_pred
      then (let ss_res = sum_list (map2 (\<lambda>t p. (t - p)\<^sup>2) y_true y_pred);
                ss_tot = sum_list (map (\<lambda>t. (t - mean y_true)\<^sup>2) y_true)
            in Inr (if ss_tot = 0 then (if ss_res = 0 then 1 else 0) else 1 - ss_res / ss_tot))
      else Inl ValueError)"

text \<open>The usual definitions of the three scorers that \<^verbatim>\<open>print_metrics\<close> takes from outside.\<close>

definition example_sklm :: sklm where
  "example_sklm =
     \<lparr>r2_score = ref_r2_score,
      mean_absolute_error = ref_mean_absolute_error,
      median_absolute_error = ref_median_absolute_error\<rparr>"

section \<open>Notions used in the properties\<close>

text \<open>
  The root mean squared error as the specification writes it:
  \<open>sqrt(sum((y_true - y_pred)^2) / n)\<close>.
\<close>

definition spec_rmse :: "vec \<Rightarrow> vec \<Rightarrow> real" where
  "spec_rmse y_true y_pred =
     sqrt (sum_list (map2 (\<lambda>t p. (t - p)\<^sup>2) y_true y_pred) / real (length y_true))"

text \<open>
  What one iteration of an evaluation loop computes for the penalty \<open>reg\<close> with the
  solver \<open>s\<close>: the entry for the list of train errors, the entry for the list of test
  errors and the entry for the list of coefficients.
\<close>

definition grid_entry ::
  "solver \<Rightarrow> matrix \<Rightarrow> vec \<Rightarrow> matrix \<Rightarrow> vec \<Rightarrow> real \<Rightarrow> error + (pyfloat \<times> pyfloat \<times> vec)" where
  "grid_entry s x_train y_train x_test y_test reg =
     (case fit s reg x_train y_train of
        Inl e \<Rightarrow> Inl e
      | Inr lin_mod \<Rightarrow>
          (case predict s lin_mod x_train of
             Inl e \<Rightarrow> Inl e
           | Inr y_score_train \<Rightarrow>
               (case mean_squared_error y_train y_score_train of
                  Inl e \<Rightarrow> Inl e
                | Inr tr \<Rightarrow>
                    (case predict s lin_mod x_test of
                       Inl e \<Rightarrow> Inl e
                     | Inr y_score \<Rightarrow>
                         (case mean_squared_error y_test y_score of
                            Inl e \<Rightarrow> Inl e
                          | Inr te \<Rightarrow> Inr (Fin tr, Fin te, coef lin_mod))))))"

text \<open>The results of \<open>f\<close> along a list, or the first error.\<close>

fun collect :: "('a \<Rightarrow> error + 'b) \<Rightarrow> 'a list \<Rightarrow> error + 'b list" where
  "collect f [] = Inr []"
| "collect f (x # xs) =
     (case f x of
        Inl e \<Rightarrow> Inl e
      | Inr y \<Rightarrow> (case collect f xs of Inl e \<Rightarrow> Inl e | Inr ys \<Rightarrow> Inr (y # ys)))"

definition extend :: "lists \<Rightarrow> (pyfloat \<times> pyfloat \<times> vec) list \<Rightarrow> lists" where
  "extend acc es =
     \<lparr>train_RMSE = train_RMSE acc @ map fst es,
      test_RMSE = test_RMSE acc @ map (fst \<circ> snd) es,
      coefs = coefs acc @ map (snd \<circ> snd) es\<rparr>"

text \<open>
  A valid input of an evaluation function: the grid is not empty, the label vectors are
  not empty, and for each penalty of the grid the solver fits a model whose predictions
  on the training and on the test features are as long as the labels.
\<close>

definition well_fitted :: "solver \<Rightarrow> matrix \<Rightarrow> vec \<Rightarrow> matrix \<Rightarrow> vec \<Rightarrow> real \<Rightarrow> bool" where
  "well_fitted s x_train y_train x_test y_test reg =
     (case fit s reg x_train y_train of
        Inl e \<Rightarrow> False
      | Inr lin_mod \<Rightarrow>
          (case predict s lin_mod x_train of
             Inl e \<Rightarrow> False
           | Inr y_score_train \<Rightarrow> length y_score_train = length y_train) \<and>
          (case predict s lin_mod x_test of
             Inl e \<Rightarrow> False
           | Inr y_score \<Rightarrow> length y_score = length y_test))"

definition valid_input :: "solver \<Rightarrow> matrix \<Rightarrow> vec \<Rightarrow> matrix \<Rightarrow> vec \<Rightarrow> real list \<Rightarrow> bool" where
  "valid_input s x_train y_train x_test y_test g =
     (g \<noteq> [] \<and> y_train \<noteq> [] \<and> y_test \<noteq> [] \<and>
      list_all (well_fitted s x_train y_train x_test y_test) g)"

text \<open>
  \<open>i\<close> is the index of the first minimum of \<open>t\<close>: no entry is below \<open>t ! i\<close> in the
  floating-point order, and no earlier entry equals it.
\<close>

definition is_first_min :: "pyfloat list \<Rightarrow> nat \<Rightarrow> bool" where
  "is_first_min t i =
     (i < length t \<and> list_all (fle (t ! i)) t \<and> list_all (\<lambda>x. x \<noteq> t ! i) (take i t))"

section \<open>The loops as a list of entries\<close>

lemma extend_Nil: "extend acc [] = acc"
  by (simp add: extend_def)

lemma extend_Cons:
  "extend \<lparr>train_RMSE = train_RMSE acc @ [a], test_RMSE = test_RMSE acc @ [b],
           coefs = coefs acc @ [c]\<rparr> es = extend acc ((a, b, c) # es)"
  by (simp add: extend_def)

lemma l2_loop_collect:
  "l2_loop lm x_train y_train x_test y_test g acc =
     (case collect (grid_entry (Ridge lm) x_train y_train x_test y_test) g of
        Inl e \<Rightarrow> Inl e
      | Inr es \<Rightarrow> Inr (extend acc es))"
proof (induction g arbitrary: acc)
  case Nil
  show ?case by (simp add: extend_Nil)
next
  case (Cons reg rest)
  show ?case
    by (simp add: Cons.IH grid_entry_def extend_Cons split: sum.splits)
qed

lemma l1_loop_collect:
  "l1_loop lm x_train y_train x_test y_test g acc =
     (case collect (grid_entry (Lasso lm) x_train y_train x_test y_test) g of
        Inl e \<Rightarrow> Inl e
      | Inr es \<Rightarrow> Inr (extend acc es))"
proof (induction g arbitrary: acc)
  case Nil
  show ?case by (simp add: extend_Nil)
next
  case (Cons reg rest)
  show ?case
    by (simp add: Cons.IH grid_entry_def extend_Cons split: sum.splits)
qed

lemma collect_Inr:
  "collect f xs = Inr ys \<Longrightarrow> length ys = length xs \<and> (\<forall>i<length xs. f (xs ! i) = Inr (ys ! i))"
proof (induction xs arbitrary: ys)
  case Nil
  then show ?case by simp
next
  case (Cons x xs)
  then show ?case
    by (auto split: sum.splits simp: nth_Cons split: nat.splits)
qed

lemma collect_succeeds:
  "list_all (\<lambda>x. \<exists>y. f x = Inr y) xs \<Longrightarrow> \<exists>ys. collect f xs = Inr ys"
  by (induction xs) auto

section \<open>The index that argmin returns\<close>

lemma argmin_scan_fin:
  "k < n \<Longrightarrow> argmin_scan (Fin m) k n (map Fin ys) = r \<Longrightarrow>
     (r = k \<and> (\<forall>y\<in>set ys. m \<le> y)) \<or>
     (n \<le> r \<and> r - n < length ys \<and> ys ! (r - n) < m \<and>
      (\<forall>y\<in>set ys. ys ! (r - n) \<le> y) \<and> (\<forall>j<r - n. ys ! (r - n) < ys ! j))"
proof (induction ys arbitrary: m k n r)
  case Nil
  then show ?case by simp
next
  case (Cons y ys)
  show ?case
  proof (cases "m \<le> y")
    case True
    with Cons.prems have scan: "argmin_scan (Fin m) k (Suc n) (map Fin ys) = r" by simp
    from Cons.prems have "k < Suc n" by simp
    from Cons.IH [OF this scan] show ?thesis
    proof
      assume "r = k \<and> (\<forall>y\<in>set ys. m \<le> y)"
      with True show ?thesis by simp
    next
      assume a: "Suc n \<le> r \<and> r - Suc n < length ys \<and> ys ! (r - Suc n) < m \<and>
        (\<forall>y\<in>set ys. ys ! (r - Suc n) \<le> y) \<and> (\<forall>j<r - Suc n. ys ! (r - Suc n) < ys ! j)"
      then have "Suc n \<le> r" by simp
      then have idx: "r - n = Suc (r - Suc n)" by arith
      have "\<forall>j<r - n. (y # ys) ! (r - n) < (y # ys) ! j"
      proof (intro allI impI)
        fix j assume "j < r - n"
        with a idx True show "(y # ys) ! (r - n) < (y # ys) ! j"
          by (cases j) auto
      qed
      with a idx True show ?thesis by auto
    qed
  next
    case False
    with Cons.prems have scan: "argmin_scan (Fin y) n (Suc n) (map Fin ys) = r" by simp
    have "n < Suc n" by simp
    from Cons.IH [OF this scan] show ?thesis
    proof
      assume "r = n \<and> (\<forall>z\<in>set ys. y \<le> z)"
      with False show ?thesis by auto
    next
      assume a: "Suc n \<le> r \<and> r - Suc n < length ys \<and> ys ! (r - Suc n) < y \<and>
        (\<forall>z\<in>set ys. ys ! (r - Suc n) \<le> z) \<and> (\<forall>j<r - Suc n. ys ! (r - Suc n) < ys ! j)"
      then have "Suc n \<le> r" by simp
      then have idx: "r - n = Suc (r - Suc n)" by arith
      have "\<forall>j<r - n. (y # ys) ! (r - n) < (y # ys) ! j"
      proof (intro allI impI)
        fix j assume "j < r - n"
        with a idx False show "(y # ys) ! (r - n) < (y # ys) ! j"
          by (cases j) auto
      qed
      with a idx False show ?thesis by auto
    qed
  qed
qed

lemma np_argmin_fin:
  assumes "np_argmin (map Fin ys) = Inr r"
  shows "r < length ys \<and> (\<forall>y\<in>set ys. ys ! r \<le> y) \<and> (\<forall>j<r. ys ! r < ys ! j)"
proof (cases ys)
  case Nil
  with assms show ?thesis by simp
next
  case (Cons y zs)
  with assms have scan: "argmin_scan (Fin y) 0 1 (map Fin zs) = r" by simp
  have "(0::nat) < 1" by simp
  from argmin_scan_fin [OF this scan] show ?thesis
  proof
    assume "r = 0 \<and> (\<forall>z\<in>set zs. y \<le> z)"
    with Cons show ?thesis by simp
  next
    assume a: "1 \<le> r \<and> r - 1 < length zs \<and> zs ! (r - 1) < y \<and>
      (\<forall>z\<in>set zs. zs ! (r - 1) \<le> z) \<and> (\<forall>j<r - 1. zs ! (r - 1) < zs ! j)"
    then obtain q where q: "r = Suc q" by (cases r) auto
    have "\<forall>j<r. (y # zs) ! r < (y # zs) ! j"
    proof (intro allI impI)
      fix j assume "j < r"
      with a q show "(y # zs) ! r < (y # zs) ! j"
        by (cases j) auto
    qed
    with a q Cons show ?thesis by auto
  qed
qed

section \<open>The evaluation functions in terms of the entries\<close>

lemma extend_no_lists:
  "train_RMSE (extend no_lists es) = map fst es"
  "test_RMSE (extend no_lists es) = map (fst \<circ> snd) es"
  "coefs (extend no_lists es) = map (snd \<circ> snd) es"
  by (simp_all add: extend_def no_lists_def)

lemma grid_entry_Fin:
  "grid_entry s a b c d reg = Inr (tr, te, w) \<Longrightarrow> \<exists>x y. tr = Fin x \<and> te = Fin y"
  by (auto simp: grid_entry_def split: sum.splits)

lemma collect_grid_fin:
  "collect (grid_entry s a b c d) g = Inr es \<Longrightarrow> \<exists>ys. map (fst \<circ> snd) es = map Fin ys"
proof (induction g arbitrary: es)
  case Nil
  then show ?case by simp
next
  case (Cons reg rest)
  from Cons.prems obtain e es' where e: "grid_entry s a b c d reg = Inr e"
    and es': "collect (grid_entry s a b c d) rest = Inr es'" and es: "es = e # es'"
    by (auto split: sum.splits)
  from Cons.IH [OF es'] obtain ys where ys: "map (fst \<circ> snd) es' = map Fin ys" by blast
  obtain tr te w where "e = (tr, te, w)" by (cases e) auto
  with e grid_entry_Fin obtain y where "fst (snd e) = Fin y" by fastforce
  with ys es have "map (fst \<circ> snd) es = map Fin (y # ys)" by simp
  then show ?case by blast
qed

lemma np_argmin_first_min:
  assumes "np_argmin (map Fin ys) = Inr i"
  shows "is_first_min (map Fin ys) i"
proof -
  from np_argmin_fin [OF assms]
  have i: "i < length ys" and le: "\<forall>y\<in>set ys. ys ! i \<le> y" and lt: "\<forall>j<i. ys ! i < ys ! j"
    by auto
  from i le have "list_all (fle (map Fin ys ! i)) (map Fin ys)"
    by (simp add: list_all_iff)
  moreover have "list_all (\<lambda>x. x \<noteq> map Fin ys ! i) (take i (map Fin ys))"
    unfolding list_all_length
  proof (intro allI impI)
    fix j assume "j < length (take i (map Fin ys))"
    with i have "j < i" by simp
    with lt i show "take i (map Fin ys) ! j \<noteq> map Fin ys ! i" by auto
  qed
  ultimately show ?thesis using i by (simp add: is_first_min_def)
qed

lemma l2_returned:
  assumes "returned (test_regularization_l2 lm a b c d g) = Inr r"
  shows "\<exists>es i. collect (grid_entry (Ridge lm) a b c d) g = Inr es \<and>
     l2_loop lm a b c d g no_lists = Inr (extend no_lists es) \<and>
     np_argmin (map (fst \<circ> snd) es) = Inr i \<and> i < length g \<and> i < length es \<and>
     r = (g ! i, map (fst \<circ> snd) es ! i) \<and>
     plotted (test_regularization_l2 lm a b c d g) =
       plot_regularization g (map fst es) (map (fst \<circ> snd) es) (map (snd \<circ> snd) es)
         (g ! i) rmse_title"
  using assms
  by (auto simp: test_regularization_l2_def l2_loop_collect extend_no_lists getitem_def
      split: sum.splits if_splits)

lemma l1_returned:
  assumes "returned (test_regularization_l1 lm a b c d g) = Inr r"
  shows "\<exists>es i. collect (grid_entry (Lasso lm) a b c d) g = Inr es \<and>
     l1_loop lm a b c d g no_lists = Inr (extend no_lists es) \<and>
     np_argmin (map (fst \<circ> snd) es) = Inr i \<and> i < length g \<and> i < length es \<and>
     r = (g ! i, map (fst \<circ> snd) es ! i) \<and>
     plotted (test_regularization_l1 lm a b c d g) =
       plot_regularization g (map fst es) (map (fst \<circ> snd) es) (map (snd \<circ> snd) es)
         (g ! i) rmse_title"
  using assms
  by (auto simp: test_regularization_l1_def l1_loop_collect extend_no_lists getitem_def
      split: sum.splits if_splits)

lemma l2_failed:
  "returned (test_regularization_l2 lm a b c d g) = Inl e \<Longrightarrow>
     plotted (test_regularization_l2 lm a b c d g) = []"
  by (auto simp: test_regularization_l2_def split: sum.splits)

lemma l1_failed:
  "returned (test_regularization_l1 lm a b c d g) = Inl e \<Longrightarrow>
     plotted (test_regularization_l1 lm a b c d g) = []"
  by (auto simp: test_regularization_l1_def split: sum.splits)


section \<open>Helper facts on the library functions and the examples\<close>

lemma np_argmin_nonempty: "t \<noteq> [] \<Longrightarrow> \<exists>i. np_argmin t = Inr i"
  by (cases t) auto

lemma sum_squares_nonneg: "0 \<le> sum_list (map2 (\<lambda>t p. (t - p)\<^sup>2) ts (ps :: real list))"
  by (rule sum_list_nonneg) auto

lemma mean_squared_error_nonneg: "mean_squared_error y_true y_pred = Inr m \<Longrightarrow> 0 \<le> m"
  by (auto simp: mean_squared_error_def sum_squares_nonneg split: if_splits)

lemma mean_squared_error_succeeds:
  "length y_true = length y_pred \<Longrightarrow> y_true \<noteq> [] \<Longrightarrow> \<exists>m. mean_squared_error y_true y_pred = Inr m"
  by (simp add: mean_squared_error_def)

lemma well_fitted_grid_entry:
  assumes "well_fitted s a b c d reg" "b \<noteq> []" "d \<noteq> []"
  shows "\<exists>e. grid_entry s a b c d reg = Inr e"
proof -
  from assms(1) obtain m p q where m: "fit s reg a b = Inr m"
    and p: "predict s m a = Inr p" "length p = length b"
    and q: "predict s m c = Inr q" "length q = length d"
    by (auto simp: well_fitted_def split: sum.splits)
  from p(2) assms(2) obtain tr where tr: "mean_squared_error b p = Inr tr"
    using mean_squared_error_succeeds [of b p] by auto
  from q(2) assms(3) obtain te where te: "mean_squared_error d q = Inr te"
    using mean_squared_error_succeeds [of d q] by auto
  from m p q tr te show ?thesis by (simp add: grid_entry_def)
qed

lemmas example_defs = example_lm_def ridge1_fit_def lasso1_fit_def linear_predict_def
  well_shaped1_def with_intercept_def centred_sxy_def centred_sxx_def mean_def
  mean_squared_error_def no_lists_def

lemma sqrt_nine: "sqrt 9 = 3"
  by (rule real_sqrt_unique) simp_all

section \<open>Further helper facts\<close>

lemmas routine_defs = test_regularization_l2_def test_regularization_l1_def getitem_def

lemmas sklm_defs = example_sklm_def ref_r2_score_def ref_mean_absolute_error_def
  ref_median_absolute_error_def shapes_ok_def median_def mean_def

lemma count_Show: "count_list (plot_regularization l tr te cs m title) Show = 2"
  by (simp add: plot_regularization_def)

lemma first_min_sorted:
  assumes "is_first_min t i" "sorted g" "length t = length g"
  shows "list_all (\<lambda>(q, e). e = t ! i \<longrightarrow> g ! i \<le> q) (zip g t)"
proof -
  from assms(1) have il: "i < length t"
    and before: "list_all (\<lambda>x. x \<noteq> t ! i) (take i t)"
    by (simp_all add: is_first_min_def)
  have "g ! i \<le> g ! j" if j: "j < length g" and eq: "t ! j = t ! i" for j
  proof -
    have "i \<le> j"
    proof (rule ccontr)
      assume "\<not> i \<le> j"
      then have "j < i" by simp
      with il have "take i t ! j = t ! j" "j < length (take i t)" by simp_all
      with before have "t ! j \<noteq> t ! i" by (auto simp: list_all_length)
      with eq show False by simp
    qed
    with assms(2) j show ?thesis by (simp add: sorted_nth_mono)
  qed
  with assms(3) show ?thesis by (simp add: list_all_length)
qed


lemma print_metrics_complete:
  assumes "r2_score sk y_true y_predicted = Inr r2"
    and "mean_squared_error y_true y_predicted = Inr mse"
    and "mean_absolute_error sk y_true y_predicted = Inr mae"
    and "median_absolute_error sk y_true y_predicted = Inr med"
  shows "print_metrics sk y_true y_predicted =
     \<lparr>printed = [(''Mean Square Error      = '', mse),
                 (''Root Mean Square Error = '', sqrt mse),
                 (''Mean Absolute Error    = '', mae),
                 (''Median Absolute Error  = '', med),
                 (''R^2                    = '', r2)],
      result = Inr ()\<rparr>"
proof -
  from assms(2) have "0 \<le> mse" by (rule mean_squared_error_nonneg)
  then have "math_sqrt mse = Inr (sqrt mse)" by (simp add: math_sqrt_def)
  with assms show ?thesis by (simp add: print_metrics_def)
qed

lemma valid_input_collect:
  assumes "valid_input s a b c d g"
  shows "\<exists>es. collect (grid_entry s a b c d) g = Inr es \<and> es \<noteq> [] \<and> length es = length g"
proof -
  from assms have g: "g \<noteq> []" and b: "b \<noteq> []" and d: "d \<noteq> []"
    and all: "list_all (well_fitted s a b c d) g"
    by (simp_all add: valid_input_def)
  have "list_all (\<lambda>reg. \<exists>e. grid_entry s a b c d reg = Inr e) g"
    unfolding list_all_iff
  proof
    fix reg assume "reg \<in> set g"
    with all have "well_fitted s a b c d reg" by (simp add: list_all_iff)
    from well_fitted_grid_entry [OF this b d]
    show "\<exists>e. grid_entry s a b c d reg = Inr e" .
  qed
  from collect_succeeds [OF this] obtain es where es: "collect (grid_entry s a b c d) g = Inr es"
    by blast
  from collect_Inr [OF es] g have "length es = length g" "es \<noteq> []" by auto
  with es show ?thesis by blast
qed

lemma valid_input_selection:
  assumes es: "collect (grid_entry s a b c d) g = Inr es" and ne: "es \<noteq> []"
  shows "\<exists>i. np_argmin (map (fst \<circ> snd) es) = Inr i \<and> i < length es"
proof -
  from ne obtain i where i: "np_argmin (map (fst \<circ> snd) es) = Inr i"
    using np_argmin_nonempty [of "map (fst \<circ> snd) es"] by auto
  from collect_grid_fin [OF es] obtain ys where ys: "map (fst \<circ> snd) es = map Fin ys" by blast
  with i have "np_argmin (map Fin ys) = Inr i" by simp
  from np_argmin_fin [OF this] have "i < length ys" by simp
  moreover from ys have "length ys = length es" by (metis length_map)
  ultimately show ?thesis using i by auto
qed

lemma entries_nth:
  assumes "collect f g = Inr es" "i < length g"
  shows "f (g ! i) = Inr (map fst es ! i, map (fst \<circ> snd) es ! i, map (snd \<circ> snd) es ! i)"
proof -
  from collect_Inr [OF assms(1)] assms(2)
  have "f (g ! i) = Inr (es ! i)" "i < length es" by auto
  then show ?thesis by simp
qed

section \<open>The properties\<close>

text \<open>
  C1. The claim: for every penalty of the grid, the train and test errors recorded by
  the loops of \<^verbatim>\<open>test_regularization_l2\<close> and \<^verbatim>\<open>test_regularization_l1\<close> are root mean
  squared errors, \<open>sqrt(sum((y_true - y_pred)^2) / n)\<close>, of the fitted model's
  predictions. The code appends \<^verbatim>\<open>sklm.mean_squared_error(...)\<close> without the square root.
  On the training set \<open>x = [[-1], [1]]\<close>, \<open>y = [-4, 4]\<close>, the test set \<open>x = [[0]]\<close>,
  \<open>y = [3]\<close> and the grid \<open>[2]\<close>, ridge and lasso both fit the coefficient 2 and the
  intercept 0; the predictions are \<open>[-2, 2]\<close> and \<open>[0]\<close>. Both loops record the train
  error 4 and the test error 9, the mean squared errors, where the root mean squared
  errors are 2 and 3.
\<close>

theorem recorded_errors_are_mean_squared_errors:
  "l2_loop example_lm [[-1], [1]] [-4, 4] [[0]] [3] [2] no_lists =
     Inr \<lparr>train_RMSE = [Fin 4], test_RMSE = [Fin 9], coefs = [[2]]\<rparr> \<and>
   l1_loop example_lm [[-1], [1]] [-4, 4] [[0]] [3] [2] no_lists =
     Inr \<lparr>train_RMSE = [Fin 4], test_RMSE = [Fin 9], coefs = [[2]]\<rparr> \<and>
   fit (Ridge example_lm) 2 [[-1], [1]] [-4, 4] = Inr \<lparr>coef = [2], intercept = 0\<rparr> \<and>
   fit (Lasso example_lm) 2 [[-1], [1]] [-4, 4] = Inr \<lparr>coef = [2], intercept = 0\<rparr> \<and>
   linear_predict \<lparr>coef = [2], intercept = 0\<rparr> [[-1], [1]] = Inr [-2, 2] \<and>
   linear_predict \<lparr>coef = [2], intercept = 0\<rparr> [[0]] = Inr [0] \<and>
   spec_rmse [-4, 4] [-2, 2] = 2 \<and>
   spec_rmse [3] [0] = 3"
  by (simp add: example_defs spec_rmse_def sqrt_nine)

text \<open>
  Two calls of \<^verbatim>\<open>test_regularization_l2\<close> that differ in the training labels only
  (\<open>[-4, 4]\<close> and \<open>[-2, 2]\<close>) return the same value, the pair \<open>(2, 9)\<close>, while their
  lists of train errors (\<open>[4]\<close> and \<open>[1]\<close>) and of coefficients (\<open>[[2]]\<close> and \<open>[[1]]\<close>)
  differ: the value returned does not hold those lists.
\<close>

theorem returns_only_best_pair_counterexample:
  "returned (test_regularization_l2 example_lm [[-1], [1]] [-4, 4] [[0]] [3] [2]) = Inr (2, Fin 9) \<and>
   returned (test_regularization_l2 example_lm [[-1], [1]] [-2, 2] [[0]] [3] [2]) = Inr (2, Fin 9) \<and>
   l2_loop example_lm [[-1], [1]] [-4, 4] [[0]] [3] [2] no_lists =
     Inr \<lparr>train_RMSE = [Fin 4], test_RMSE = [Fin 9], coefs = [[2]]\<rparr> \<and>
   l2_loop example_lm [[-1], [1]] [-2, 2] [[0]] [3] [2] no_lists =
     Inr \<lparr>train_RMSE = [Fin 1], test_RMSE = [Fin 9], coefs = [[1]]\<rparr>"
  by (simp add: example_defs routine_defs)

text \<open>
  C2, as the code has it. The evaluation functions end with
  \<^verbatim>\<open>return min_l2, min_RMSE\<close> (\<^verbatim>\<open>return min_l1, min_RMSE\<close>): whenever they return, the
  value is the pair of the penalty at the index that argmin gives and of the test error
  at that index, and nothing else. The grid, the list of train errors, the list of test
  errors and the list of coefficients are arguments of the call of
  \<^verbatim>\<open>plot_regularization\<close>, next to the best penalty; these lists are not returned.
\<close>

theorem returns_best_pair_and_plots_the_rest:
  "(returned (test_regularization_l2 lm x_train y_train x_test y_test g) = Inr r \<longrightarrow>
      (\<exists>acc i. l2_loop lm x_train y_train x_test y_test g no_lists = Inr acc \<and>
         np_argmin (test_RMSE acc) = Inr i \<and>
         r = (g ! i, test_RMSE acc ! i) \<and>
         plotted (test_regularization_l2 lm x_train y_train x_test y_test g) =
           plot_regularization g (train_RMSE acc) (test_RMSE acc) (coefs acc) (g ! i)
             rmse_title)) \<and>
   (returned (test_regularization_l1 lm x_train y_train x_test y_test g) = Inr r \<longrightarrow>
      (\<exists>acc i. l1_loop lm x_train y_train x_test y_test g no_lists = Inr acc \<and>
         np_argmin (test_RMSE acc) = Inr i \<and>
         r = (g ! i, test_RMSE acc ! i) \<and>
         plotted (test_regularization_l1 lm x_train y_train x_test y_test g) =
           plot_regularization g (train_RMSE acc) (test_RMSE acc) (coefs acc) (g ! i)
             rmse_title))"
proof (intro conjI impI)
  assume "returned (test_regularization_l2 lm x_train y_train x_test y_test g) = Inr r"
  from l2_returned [OF this] obtain es i where
    "l2_loop lm x_train y_train x_test y_test g no_lists = Inr (extend no_lists es)"
    "np_argmin (map (fst \<circ> snd) es) = Inr i"
    "r = (g ! i, map (fst \<circ> snd) es ! i)"
    "plotted (test_regularization_l2 lm x_train y_train x_test y_test g) =
       plot_regularization g (map fst es) (map (fst \<circ> snd) es) (map (snd \<circ> snd) es)
         (g ! i) rmse_title"
    by blast
  then show "\<exists>acc i. l2_loop lm x_train y_train x_test y_test g no_lists = Inr acc \<and>
         np_argmin (test_RMSE acc) = Inr i \<and>
         r = (g ! i, test_RMSE acc ! i) \<and>
         plotted (test_regularization_l2 lm x_train y_train x_test y_test g) =
           plot_regularization g (train_RMSE acc) (test_RMSE acc) (coefs acc) (g ! i)
             rmse_title"
    by (intro exI [of _ "extend no_lists es"] exI [of _ i]) (simp add: extend_no_lists)
next
  assume "returned (test_regularization_l1 lm x_train y_train x_test y_test g) = Inr r"
  from l1_returned [OF this] obtain es i where
    "l1_loop lm x_train y_train x_test y_test g no_lists = Inr (extend no_lists es)"
    "np_argmin (map (fst \<circ> snd) es) = Inr i"
    "r = (g ! i, map (fst \<circ> snd) es ! i)"
    "plotted (test_regularization_l1 lm x_train y_train x_test y_test g) =
       plot_regularization g (map fst es) (map (fst \<circ> snd) es) (map (snd \<circ> snd) es)
         (g ! i) rmse_title"
    by blast
  then show "\<exists>acc i. l1_loop lm x_train y_train x_test y_test g no_lists = Inr acc \<and>
         np_argmin (test_RMSE acc) = Inr i \<and>
         r = (g ! i, test_RMSE acc ! i) \<and>
         plotted (test_regularization_l1 lm x_train y_train x_test y_test g) =
           plot_regularization g (train_RMSE acc) (test_RMSE acc) (coefs acc) (g ! i)
             rmse_title"
    by (intro exI [of _ "extend no_lists es"] exI [of _ i]) (simp add: extend_no_lists)
qed

text \<open>
  The same at the grid \<open>[2]\<close>, where both functions return \<open>(2, 9)\<close>.
\<close>

theorem returns_best_pair_and_plots_the_rest_witness:
  "(\<exists>acc i. l2_loop example_lm [[-1], [1]] [-4, 4] [[0]] [3] [2] no_lists = Inr acc \<and>
      np_argmin (test_RMSE acc) = Inr i \<and>
      (2::real, Fin 9) = ([2] ! i, test_RMSE acc ! i) \<and>
      plotted (test_regularization_l2 example_lm [[-1], [1]] [-4, 4] [[0]] [3] [2]) =
        plot_regularization [2] (train_RMSE acc) (test_RMSE acc) (coefs acc) ([2] ! i)
          rmse_title) \<and>
   (\<exists>acc i. l1_loop example_lm [[-1], [1]] [-4, 4] [[0]] [3] [2] no_lists = Inr acc \<and>
      np_argmin (test_RMSE acc) = Inr i \<and>
      (2::real, Fin 9) = ([2] ! i, test_RMSE acc ! i) \<and>
      plotted (test_regularization_l1 example_lm [[-1], [1]] [-4, 4] [[0]] [3] [2]) =
        plot_regularization [2] (train_RMSE acc) (test_RMSE acc) (coefs acc) ([2] ! i)
          rmse_title)"
proof -
  have h2: "returned (test_regularization_l2 example_lm [[-1], [1]] [-4, 4] [[0]] [3] [2]) =
      Inr (2, Fin 9)"
    by (simp add: example_defs routine_defs)
  have h1: "returned (test_regularization_l1 example_lm [[-1], [1]] [-4, 4] [[0]] [3] [2]) =
      Inr (2, Fin 9)"
    by (simp add: example_defs routine_defs)
  note t = returns_best_pair_and_plots_the_rest
    [of example_lm "[[-1], [1]]" "[-4, 4]" "[[0]]" "[3]" "[2]" "(2, Fin 9)"]
  from t h2 h1 show ?thesis by blast
qed

text \<open>
  A call of \<^verbatim>\<open>test_regularization_l2\<close> that returns \<open>(2, 9)\<close> has made the fourteen
  matplotlib calls of \<^verbatim>\<open>plot_regularization\<close>, with \<^verbatim>\<open>plt.show()\<close> twice.
\<close>

theorem evaluation_plots_counterexample:
  "plotted (test_regularization_l2 example_lm [[-1], [1]] [-4, 4] [[0]] [3] [2]) =
     plot_regularization [2] [Fin 4] [Fin 9] [[2]] 2 rmse_title \<and>
   count_list (plotted (test_regularization_l2 example_lm [[-1], [1]] [-4, 4] [[0]] [3] [2])) Show = 2 \<and>
   returned (test_regularization_l2 example_lm [[-1], [1]] [-4, 4] [[0]] [3] [2]) = Inr (2, Fin 9)"
  by (simp add: example_defs routine_defs plot_regularization_def)

text \<open>
  C3, as the code has it. An evaluation function that raises has plotted nothing. One
  that returns has called \<^verbatim>\<open>plot_regularization\<close> once, on the grid, the lists of its
  loop and the penalty it returns, and so has shown two charts.
\<close>

theorem plots_two_charts_unless_it_fails:
  "(returned (test_regularization_l2 lm x_train y_train x_test y_test g) = Inl e \<longrightarrow>
      plotted (test_regularization_l2 lm x_train y_train x_test y_test g) = []) \<and>
   (returned (test_regularization_l2 lm x_train y_train x_test y_test g) = Inr r \<longrightarrow>
      (\<exists>acc. l2_loop lm x_train y_train x_test y_test g no_lists = Inr acc \<and>
         plotted (test_regularization_l2 lm x_train y_train x_test y_test g) =
           plot_regularization g (train_RMSE acc) (test_RMSE acc) (coefs acc) (fst r)
             rmse_title) \<and>
      count_list (plotted (test_regularization_l2 lm x_train y_train x_test y_test g)) Show = 2) \<and>
   (returned (test_regularization_l1 lm x_train y_train x_test y_test g) = Inl e \<longrightarrow>
      plotted (test_regularization_l1 lm x_train y_train x_test y_test g) = []) \<and>
   (returned (test_regularization_l1 lm x_train y_train x_test y_test g) = Inr r \<longrightarrow>
      (\<exists>acc. l1_loop lm x_train y_train x_test y_test g no_lists = Inr acc \<and>
         plotted (test_regularization_l1 lm x_train y_train x_test y_test g) =
           plot_regularization g (train_RMSE acc) (test_RMSE acc) (coefs acc) (fst r)
             rmse_title) \<and>
      count_list (plotted (test_regularization_l1 lm x_train y_train x_test y_test g)) Show = 2)"
proof (intro conjI impI)
  assume "returned (test_regularization_l2 lm x_train y_train x_test y_test g) = Inl e"
  then show "plotted (test_regularization_l2 lm x_train y_train x_test y_test g) = []"
    by (rule l2_failed)
next
  assume "returned (test_regularization_l1 lm x_train y_train x_test y_test g) = Inl e"
  then show "plotted (test_regularization_l1 lm x_train y_train x_test y_test g) = []"
    by (rule l1_failed)
next
  assume a: "returned (test_regularization_l2 lm x_train y_train x_test y_test g) = Inr r"
  from l2_returned [OF a] obtain es i where
    es: "l2_loop lm x_train y_train x_test y_test g no_lists = Inr (extend no_lists es)"
      "r = (g ! i, map (fst \<circ> snd) es ! i)"
      "plotted (test_regularization_l2 lm x_train y_train x_test y_test g) =
         plot_regularization g (map fst es) (map (fst \<circ> snd) es) (map (snd \<circ> snd) es)
           (g ! i) rmse_title"
    by blast
  then show "\<exists>acc. l2_loop lm x_train y_train x_test y_test g no_lists = Inr acc \<and>
         plotted (test_regularization_l2 lm x_train y_train x_test y_test g) =
           plot_regularization g (train_RMSE acc) (test_RMSE acc) (coefs acc) (fst r)
             rmse_title"
    by (intro exI [of _ "extend no_lists es"]) (simp add: extend_no_lists)
  from es(3) show
    "count_list (plotted (test_regularization_l2 lm x_train y_train x_test y_test g)) Show = 2"
    by (simp add: count_Show)
next
  assume a: "returned (test_regularization_l1 lm x_train y_train x_test y_test g) = Inr r"
  from l1_returned [OF a] obtain es i where
    es: "l1_loop lm x_train y_train x_test y_test g no_lists = Inr (extend no_lists es)"
      "r = (g ! i, map (fst \<circ> snd) es ! i)"
      "plotted (test_regularization_l1 lm x_train y_train x_test y_test g) =
         plot_regularization g (map fst es) (map (fst \<circ> snd) es) (map (snd \<circ> snd) es)
           (g ! i) rmse_title"
    by blast
  then show "\<exists>acc. l1_loop lm x_train y_train x_test y_test g no_lists = Inr acc \<and>
         plotted (test_regularization_l1 lm x_train y_train x_test y_test g) =
           plot_regularization g (train_RMSE acc) (test_RMSE acc) (coefs acc) (fst r)
             rmse_title"
    by (intro exI [of _ "extend no_lists es"]) (simp add: extend_no_lists)
  from es(3) show
    "count_list (plotted (test_regularization_l1 lm x_train y_train x_test y_test g)) Show = 2"
    by (simp add: count_Show)
qed

text \<open>
  The same on the empty grid, where both functions raise, and on the grid \<open>[2]\<close>, where
  both return.
\<close>

theorem plots_two_charts_unless_it_fails_witness:
  "plotted (test_regularization_l2 example_lm [[-1], [1]] [-4, 4] [[0]] [3] []) = [] \<and>
   plotted (test_regularization_l1 example_lm [[-1], [1]] [-4, 4] [[0]] [3] []) = [] \<and>
   count_list (plotted (test_regularization_l2 example_lm [[-1], [1]] [-4, 4] [[0]] [3] [2])) Show = 2 \<and>
   count_list (plotted (test_regularization_l1 example_lm [[-1], [1]] [-4, 4] [[0]] [3] [2])) Show = 2"
proof -
  have e2: "returned (test_regularization_l2 example_lm [[-1], [1]] [-4, 4] [[0]] [3] []) =
      Inl ValueError"
    by (simp add: example_defs routine_defs)
  have e1: "returned (test_regularization_l1 example_lm [[-1], [1]] [-4, 4] [[0]] [3] []) =
      Inl ValueError"
    by (simp add: example_defs routine_defs)
  have h2: "returned (test_regularization_l2 example_lm [[-1], [1]] [-4, 4] [[0]] [3] [2]) =
      Inr (2, Fin 9)"
    by (simp add: example_defs routine_defs)
  have h1: "returned (test_regularization_l1 example_lm [[-1], [1]] [-4, 4] [[0]] [3] [2]) =
      Inr (2, Fin 9)"
    by (simp add: example_defs routine_defs)
  note failing = plots_two_charts_unless_it_fails
    [of example_lm "[[-1], [1]]" "[-4, 4]" "[[0]]" "[3]" "[]" ValueError]
  note returning = plots_two_charts_unless_it_fails
    [of example_lm "[[-1], [1]]" "[-4, 4]" "[[0]]" "[3]" "[2]" _ "(2, Fin 9)"]
  from failing e2 e1 returning h2 h1 show ?thesis by blast
qed

text \<open>
  With the test set \<open>x = [[0]]\<close>, \<open>y = [3]\<close> every penalty has the test error 9. On the
  grid \<open>[2, 1]\<close> the function returns the penalty 2, which is not the smaller of the two
  tied penalties; on the grid \<open>[1, 2]\<close> it returns 1.
\<close>

theorem tie_break_counterexample:
  "l2_loop example_lm [[-1], [1]] [-4, 4] [[0]] [3] [2, 1] no_lists =
     Inr \<lparr>train_RMSE = [Fin 4, Fin (16 / 9)], test_RMSE = [Fin 9, Fin 9],
          coefs = [[2], [8 / 3]]\<rparr> \<and>
   returned (test_regularization_l2 example_lm [[-1], [1]] [-4, 4] [[0]] [3] [2, 1]) =
     Inr (2, Fin 9) \<and>
   returned (test_regularization_l2 example_lm [[-1], [1]] [-4, 4] [[0]] [3] [1, 2]) =
     Inr (1, Fin 9)"
  by (simp add: example_defs routine_defs power2_eq_square)

text \<open>
  C4, as the code has it. The best penalty is the one at the first minimum of the test
  errors in grid order: no test error is smaller, and no earlier one is equal. Which of
  several tied penalties is returned thus depends on the order of the grid; on a grid in
  ascending order it is the smallest of them.
\<close>

theorem best_penalty_is_first_minimum:
  "(returned (test_regularization_l2 lm x_train y_train x_test y_test g) = Inr (p, v) \<longrightarrow>
      (\<exists>acc i. l2_loop lm x_train y_train x_test y_test g no_lists = Inr acc \<and>
         length (test_RMSE acc) = length g \<and> is_first_min (test_RMSE acc) i \<and>
         p = g ! i \<and> v = test_RMSE acc ! i \<and>
         (sorted g \<longrightarrow> list_all (\<lambda>(q, e). e = v \<longrightarrow> p \<le> q) (zip g (test_RMSE acc))))) \<and>
   (returned (test_regularization_l1 lm x_train y_train x_test y_test g) = Inr (p, v) \<longrightarrow>
      (\<exists>acc i. l1_loop lm x_train y_train x_test y_test g no_lists = Inr acc \<and>
         length (test_RMSE acc) = length g \<and> is_first_min (test_RMSE acc) i \<and>
         p = g ! i \<and> v = test_RMSE acc ! i \<and>
         (sorted g \<longrightarrow> list_all (\<lambda>(q, e). e = v \<longrightarrow> p \<le> q) (zip g (test_RMSE acc)))))"
proof (intro conjI impI)
  assume "returned (test_regularization_l2 lm x_train y_train x_test y_test g) = Inr (p, v)"
  from l2_returned [OF this] obtain es i where
    es: "collect (grid_entry (Ridge lm) x_train y_train x_test y_test) g = Inr es"
    and loop: "l2_loop lm x_train y_train x_test y_test g no_lists = Inr (extend no_lists es)"
    and arg: "np_argmin (map (fst \<circ> snd) es) = Inr i"
    and pv: "(p, v) = (g ! i, map (fst \<circ> snd) es ! i)"
    by blast
  let ?t = "map (fst \<circ> snd) es"
  from collect_Inr [OF es] have len: "length ?t = length g" by simp
  from collect_grid_fin [OF es] obtain ys where ys: "?t = map Fin ys" by blast
  from arg ys have first: "is_first_min ?t i" by (simp add: np_argmin_first_min)
  have "sorted g \<longrightarrow> list_all (\<lambda>(q, e). e = v \<longrightarrow> p \<le> q) (zip g ?t)"
    using first_min_sorted [OF first _ len] pv by simp
  with loop len first pv
  show "\<exists>acc i. l2_loop lm x_train y_train x_test y_test g no_lists = Inr acc \<and>
         length (test_RMSE acc) = length g \<and> is_first_min (test_RMSE acc) i \<and>
         p = g ! i \<and> v = test_RMSE acc ! i \<and>
         (sorted g \<longrightarrow> list_all (\<lambda>(q, e). e = v \<longrightarrow> p \<le> q) (zip g (test_RMSE acc)))"
    by (intro exI [of _ "extend no_lists es"] exI [of _ i]) (simp add: extend_no_lists)
next
  assume "returned (test_regularization_l1 lm x_train y_train x_test y_test g) = Inr (p, v)"
  from l1_returned [OF this] obtain es i where
    es: "collect (grid_entry (Lasso lm) x_train y_train x_test y_test) g = Inr es"
    and loop: "l1_loop lm x_train y_train x_test y_test g no_lists = Inr (extend no_lists es)"
    and arg: "np_argmin (map (fst \<circ> snd) es) = Inr i"
    and pv: "(p, v) = (g ! i, map (fst \<circ> snd) es ! i)"
    by blast
  let ?t = "map (fst \<circ> snd) es"
  from collect_Inr [OF es] have len: "length ?t = length g" by simp
  from collect_grid_fin [OF es] obtain ys where ys: "?t = map Fin ys" by blast
  from arg ys have first: "is_first_min ?t i" by (simp add: np_argmin_first_min)
  have "sorted g \<longrightarrow> list_all (\<lambda>(q, e). e = v \<longrightarrow> p \<le> q) (zip g ?t)"
    using first_min_sorted [OF first _ len] pv by simp
  with loop len first pv
  show "\<exists>acc i. l1_loop lm x_train y_train x_test y_test g no_lists = Inr acc \<and>
         length (test_RMSE acc) = length g \<and> is_first_min (test_RMSE acc) i \<and>
         p = g ! i \<and> v = test_RMSE acc ! i \<and>
         (sorted g \<longrightarrow> list_all (\<lambda>(q, e). e = v \<longrightarrow> p \<le> q) (zip g (test_RMSE acc)))"
    by (intro exI [of _ "extend no_lists es"] exI [of _ i]) (simp add: extend_no_lists)
qed

text \<open>
  The same on the ascending grid \<open>[1, 2]\<close> with both test errors 9.
\<close>

theorem best_penalty_is_first_minimum_witness:
  "(\<exists>acc i. l2_loop example_lm [[-1], [1]] [-4, 4] [[0]] [3] [1, 2] no_lists = Inr acc \<and>
      length (test_RMSE acc) = length [1, 2 :: real] \<and> is_first_min (test_RMSE acc) i \<and>
      (1 :: real) = [1, 2] ! i \<and> Fin 9 = test_RMSE acc ! i \<and>
      list_all (\<lambda>(q, e). e = Fin 9 \<longrightarrow> (1 :: real) \<le> q) (zip [1, 2] (test_RMSE acc))) \<and>
   (\<exists>acc i. l1_loop example_lm [[-1], [1]] [-4, 4] [[0]] [3] [1, 2] no_lists = Inr acc \<and>
      length (test_RMSE acc) = length [1, 2 :: real] \<and> is_first_min (test_RMSE acc) i \<and>
      (1 :: real) = [1, 2] ! i \<and> Fin 9 = test_RMSE acc ! i \<and>
      list_all (\<lambda>(q, e). e = Fin 9 \<longrightarrow> (1 :: real) \<le> q) (zip [1, 2] (test_RMSE acc)))"
proof -
  have h2: "returned (test_regularization_l2 example_lm [[-1], [1]] [-4, 4] [[0]] [3] [1, 2]) =
      Inr (1, Fin 9)"
    by (simp add: example_defs routine_defs)
  have h1: "returned (test_regularization_l1 example_lm [[-1], [1]] [-4, 4] [[0]] [3] [1, 2]) =
      Inr (1, Fin 9)"
    by (simp add: example_defs routine_defs)
  have s: "sorted [1, 2 :: real]" by simp
  note t = best_penalty_is_first_minimum
    [of example_lm "[[-1], [1]]" "[-4, 4]" "[[0]]" "[3]" "[1, 2]" 1 "Fin 9"]
  from t h2 h1 s show ?thesis by blast
qed

text \<open>
  On the empty grid \<^verbatim>\<open>test_regularization_l2\<close> raises ValueError, the exception of
  \<^verbatim>\<open>np.argmin\<close> on an empty sequence, and not an exception named EmptyGridError.
\<close>

theorem empty_grid_counterexample:
  "returned (test_regularization_l2 example_lm [[-1], [1]] [-4, 4] [[0]] [3] []) =
     Inl (Raised ''ValueError'') \<and>
   returned (test_regularization_l2 example_lm [[-1], [1]] [-4, 4] [[0]] [3] []) \<noteq>
     Inl (Raised ''EmptyGridError'')"
  by (simp add: example_defs routine_defs)

text \<open>
  C5, as the code has it. On an empty grid no model is fitted, \<^verbatim>\<open>np.argmin\<close> of the
  empty list of test errors raises ValueError, and nothing is plotted; so for both
  evaluation functions, whatever the solver and the data.
\<close>

theorem empty_grid_raises_ValueError:
  "test_regularization_l2 lm x_train y_train x_test y_test [] =
     \<lparr>plotted = [], returned = Inl ValueError\<rparr> \<and>
   test_regularization_l1 lm x_train y_train x_test y_test [] =
     \<lparr>plotted = [], returned = Inl ValueError\<rparr>"
  by (simp add: routine_defs no_lists_def)

text \<open>
  The same for the example solver.
\<close>

theorem empty_grid_raises_ValueError_witness:
  "test_regularization_l2 example_lm [[-1], [1]] [-4, 4] [[0]] [3] [] =
     \<lparr>plotted = [], returned = Inl ValueError\<rparr> \<and>
   test_regularization_l1 example_lm [[-1], [1]] [-4, 4] [[0]] [3] [] =
     \<lparr>plotted = [], returned = Inl ValueError\<rparr>"
  by (rule empty_grid_raises_ValueError)



text \<open>
  \<^verbatim>\<open>print_metrics\<close> on \<open>y_true = [1, 3]\<close> and \<open>y_predicted = [1, 1]\<close> prints five lines
  and gives \<^verbatim>\<open>None\<close>: it has a side effect and returns no record.
\<close>

theorem print_metrics_prints_counterexample:
  "print_metrics example_sklm [1, 3] [1, 1] =
     \<lparr>printed = [(''Mean Square Error      = '', 2),
                 (''Root Mean Square Error = '', sqrt 2),
                 (''Mean Absolute Error    = '', 1),
                 (''Median Absolute Error  = '', 1),
                 (''R^2                    = '', - 1)],
      result = Inr ()\<rparr>"
  by (simp add: print_metrics_def sklm_defs mean_squared_error_def math_sqrt_def)

text \<open>
  C7, as the code has it. On two sequences of the same length that are not empty, and
  on which the three external scorers succeed, \<^verbatim>\<open>print_metrics\<close> prints five lines, in
  this order: the mean squared error, its square root, the mean absolute error, the
  median absolute error and R squared. The numbers depend on the two sequences only. It
  returns nothing (\<^verbatim>\<open>None\<close>).
\<close>

theorem print_metrics_prints_five_lines:
  assumes "length y_true = length y_predicted" and "y_true \<noteq> []"
    and "r2_score sk y_true y_predicted = Inr r2"
    and "mean_absolute_error sk y_true y_predicted = Inr mae"
    and "median_absolute_error sk y_true y_predicted = Inr med"
  shows "print_metrics sk y_true y_predicted =
     \<lparr>printed =
        [(''Mean Square Error      = '',
            sum_list (map2 (\<lambda>t p. (t - p)\<^sup>2) y_true y_predicted) / real (length y_true)),
         (''Root Mean Square Error = '',
            sqrt (sum_list (map2 (\<lambda>t p. (t - p)\<^sup>2) y_true y_predicted) / real (length y_true))),
         (''Mean Absolute Error    = '', mae),
         (''Median Absolute Error  = '', med),
         (''R^2                    = '', r2)],
      result = Inr ()\<rparr>"
proof -
  from assms(1,2) have "mean_squared_error y_true y_predicted =
      Inr (sum_list (map2 (\<lambda>t p. (t - p)\<^sup>2) y_true y_predicted) / real (length y_true))"
    by (simp add: mean_squared_error_def)
  from print_metrics_complete [OF assms(3) this assms(4,5)] show ?thesis .
qed

text \<open>
  The same on \<open>y_true = [1, 3]\<close> and \<open>y_predicted = [1, 1]\<close> with the usual scorers.
\<close>

theorem print_metrics_prints_five_lines_witness:
  "print_metrics example_sklm [1, 3] [1, 1] =
     \<lparr>printed =
        [(''Mean Square Error      = '',
            sum_list (map2 (\<lambda>t p. (t - p)\<^sup>2) [1, 3] [1, 1]) / real (length [1, 3 :: real])),
         (''Root Mean Square Error = '',
            sqrt (sum_list (map2 (\<lambda>t p. (t - p)\<^sup>2) [1, 3] [1, 1]) / real (length [1, 3 :: real]))),
         (''Mean Absolute Error    = '', 1),
         (''Median Absolute Error  = '', 1),
         (''R^2                    = '', - 1)],
      result = Inr ()\<rparr>"
proof -
  have a: "length [1, 3 :: real] = length [1, 1 :: real]" by simp
  have b: "[1, 3 :: real] \<noteq> []" by simp
  have c: "r2_score example_sklm [1, 3] [1, 1] = Inr (- 1)" by (simp add: sklm_defs)
  have d: "mean_absolute_error example_sklm [1, 3] [1, 1] = Inr 1" by (simp add: sklm_defs)
  have e: "median_absolute_error example_sklm [1, 3] [1, 1] = Inr 1" by (simp add: sklm_defs)
  from print_metrics_prints_five_lines [OF a b c d e] show ?thesis .
qed

text \<open>
  Two calls of \<^verbatim>\<open>test_regularization_l2\<close> on the grid \<open>[1, 2]\<close> that differ in the
  training labels only return the same value, the pair \<open>(1, 9)\<close>; their lists of train
  errors (\<open>[16/9, 4]\<close> and \<open>[4/9, 1]\<close>) and of coefficients differ. The lists with one
  entry for each penalty are not in the value returned.
\<close>

theorem lists_are_not_returned_counterexample:
  "returned (test_regularization_l2 example_lm [[-1], [1]] [-4, 4] [[0]] [3] [1, 2]) =
     Inr (1, Fin 9) \<and>
   returned (test_regularization_l2 example_lm [[-1], [1]] [-2, 2] [[0]] [3] [1, 2]) =
     Inr (1, Fin 9) \<and>
   l2_loop example_lm [[-1], [1]] [-4, 4] [[0]] [3] [1, 2] no_lists =
     Inr \<lparr>train_RMSE = [Fin (16 / 9), Fin 4], test_RMSE = [Fin 9, Fin 9],
          coefs = [[8 / 3], [2]]\<rparr> \<and>
   l2_loop example_lm [[-1], [1]] [-2, 2] [[0]] [3] [1, 2] no_lists =
     Inr \<lparr>train_RMSE = [Fin (4 / 9), Fin 1], test_RMSE = [Fin 9, Fin 9],
          coefs = [[4 / 3], [1]]\<rparr>"
  by (simp add: example_defs routine_defs power2_eq_square)

text \<open>
  C8, as the code has it. On a valid input (for the solver of the function) the loop
  ends with three lists that have one entry for each penalty of the grid, the entries at
  index \<open>i\<close> being those computed for the \<open>i\<close>-th penalty. The function returns, but not
  these lists: they are the ones it hands to \<^verbatim>\<open>plot_regularization\<close> together with the
  grid.
\<close>

theorem one_entry_per_penalty_in_grid_order:
  "(valid_input (Ridge lm) x_train y_train x_test y_test g \<longrightarrow>
      (\<exists>acc r. l2_loop lm x_train y_train x_test y_test g no_lists = Inr acc \<and>
         test_regularization_l2 lm x_train y_train x_test y_test g =
           \<lparr>plotted = plot_regularization g (train_RMSE acc) (test_RMSE acc) (coefs acc)
                        (fst r) rmse_title,
            returned = Inr r\<rparr> \<and>
         length (train_RMSE acc) = length g \<and> length (test_RMSE acc) = length g \<and>
         length (coefs acc) = length g \<and>
         (\<forall>i<length g. grid_entry (Ridge lm) x_train y_train x_test y_test (g ! i) =
            Inr (train_RMSE acc ! i, test_RMSE acc ! i, coefs acc ! i)))) \<and>
   (valid_input (Lasso lm) x_train y_train x_test y_test g \<longrightarrow>
      (\<exists>acc r. l1_loop lm x_train y_train x_test y_test g no_lists = Inr acc \<and>
         test_regularization_l1 lm x_train y_train x_test y_test g =
           \<lparr>plotted = plot_regularization g (train_RMSE acc) (test_RMSE acc) (coefs acc)
                        (fst r) rmse_title,
            returned = Inr r\<rparr> \<and>
         length (train_RMSE acc) = length g \<and> length (test_RMSE acc) = length g \<and>
         length (coefs acc) = length g \<and>
         (\<forall>i<length g. grid_entry (Lasso lm) x_train y_train x_test y_test (g ! i) =
            Inr (train_RMSE acc ! i, test_RMSE acc ! i, coefs acc ! i))))"
proof (intro conjI impI)
  assume "valid_input (Ridge lm) x_train y_train x_test y_test g"
  from valid_input_collect [OF this] obtain es where
    es: "collect (grid_entry (Ridge lm) x_train y_train x_test y_test) g = Inr es"
    and ne: "es \<noteq> []" and len: "length es = length g"
    by blast
  from valid_input_selection [OF es ne] obtain i where
    i: "np_argmin (map (fst \<circ> snd) es) = Inr i" "i < length es"
    by blast
  let ?acc = "extend no_lists es"
  let ?r = "(g ! i, map (fst \<circ> snd) es ! i)"
  have loop: "l2_loop lm x_train y_train x_test y_test g no_lists = Inr ?acc"
    by (simp add: l2_loop_collect es)
  have run: "test_regularization_l2 lm x_train y_train x_test y_test g =
      \<lparr>plotted = plot_regularization g (train_RMSE ?acc) (test_RMSE ?acc) (coefs ?acc)
                   (fst ?r) rmse_title,
       returned = Inr ?r\<rparr>"
    using i len
    by (simp add: test_regularization_l2_def loop extend_no_lists getitem_def del: o_apply)
  have entries: "\<forall>i<length g. grid_entry (Ridge lm) x_train y_train x_test y_test (g ! i) =
      Inr (train_RMSE ?acc ! i, test_RMSE ?acc ! i, coefs ?acc ! i)"
    using entries_nth [OF es] by (simp add: extend_no_lists del: o_apply)
  from loop run entries len
  show "\<exists>acc r. l2_loop lm x_train y_train x_test y_test g no_lists = Inr acc \<and>
         test_regularization_l2 lm x_train y_train x_test y_test g =
           \<lparr>plotted = plot_regularization g (train_RMSE acc) (test_RMSE acc) (coefs acc)
                        (fst r) rmse_title,
            returned = Inr r\<rparr> \<and>
         length (train_RMSE acc) = length g \<and> length (test_RMSE acc) = length g \<and>
         length (coefs acc) = length g \<and>
         (\<forall>i<length g. grid_entry (Ridge lm) x_train y_train x_test y_test (g ! i) =
            Inr (train_RMSE acc ! i, test_RMSE acc ! i, coefs acc ! i))"
    by (intro exI [of _ ?acc] exI [of _ ?r]) (simp add: extend_no_lists del: o_apply)
next
  assume "valid_input (Lasso lm) x_train y_train x_test y_test g"
  from valid_input_collect [OF this] obtain es where
    es: "collect (grid_entry (Lasso lm) x_train y_train x_test y_test) g = Inr es"
    and ne: "es \<noteq> []" and len: "length es = length g"
    by blast
  from valid_input_selection [OF es ne] obtain i where
    i: "np_argmin (map (fst \<circ> snd) es) = Inr i" "i < length es"
    by blast
  let ?acc = "extend no_lists es"
  let ?r = "(g ! i, map (fst \<circ> snd) es ! i)"
  have loop: "l1_loop lm x_train y_train x_test y_test g no_lists = Inr ?acc"
    by (simp add: l1_loop_collect es)
  have run: "test_regularization_l1 lm x_train y_train x_test y_test g =
      \<lparr>plotted = plot_regularization g (train_RMSE ?acc) (test_RMSE ?acc) (coefs ?acc)
                   (fst ?r) rmse_title,
       returned = Inr ?r\<rparr>"
    using i len
    by (simp add: test_regularization_l1_def loop extend_no_lists getitem_def del: o_apply)
  have entries: "\<forall>i<length g. grid_entry (Lasso lm) x_train y_train x_test y_test (g ! i) =
      Inr (train_RMSE ?acc ! i, test_RMSE ?acc ! i, coefs ?acc ! i)"
    using entries_nth [OF es] by (simp add: extend_no_lists del: o_apply)
  from loop run entries len
  show "\<exists>acc r. l1_loop lm x_train y_train x_test y_test g no_lists = Inr acc \<and>
         test_regularization_l1 lm x_train y_train x_test y_test g =
           \<lparr>plotted = plot_regularization g (train_RMSE acc) (test_RMSE acc) (coefs acc)
                        (fst r) rmse_title,
            returned = Inr r\<rparr> \<and>
         length (train_RMSE acc) = length g \<and> length (test_RMSE acc) = length g \<and>
         length (coefs acc) = length g \<and>
         (\<forall>i<length g. grid_entry (Lasso lm) x_train y_train x_test y_test (g ! i) =
            Inr (train_RMSE acc ! i, test_RMSE acc ! i, coefs acc ! i))"
    by (intro exI [of _ ?acc] exI [of _ ?r]) (simp add: extend_no_lists del: o_apply)
qed

text \<open>
  The same on the grid \<open>[1, 2]\<close> with the example solver.
\<close>

theorem one_entry_per_penalty_in_grid_order_witness:
  "valid_input (Ridge example_lm) [[-1], [1]] [-4, 4] [[0]] [3] [1, 2] \<and>
   valid_input (Lasso example_lm) [[-1], [1]] [-4, 4] [[0]] [3] [1, 2] \<and>
   (\<exists>acc r. l2_loop example_lm [[-1], [1]] [-4, 4] [[0]] [3] [1, 2] no_lists = Inr acc \<and>
      test_regularization_l2 example_lm [[-1], [1]] [-4, 4] [[0]] [3] [1, 2] =
        \<lparr>plotted = plot_regularization [1, 2] (train_RMSE acc) (test_RMSE acc) (coefs acc)
                     (fst r) rmse_title,
         returned = Inr r\<rparr> \<and>
      length (train_RMSE acc) = length [1, 2 :: real] \<and>
      length (test_RMSE acc) = length [1, 2 :: real] \<and>
      length (coefs acc) = length [1, 2 :: real] \<and>
      grid_entry (Ridge example_lm) [[-1], [1]] [-4, 4] [[0]] [3] ([1, 2] ! 0) =
        Inr (train_RMSE acc ! 0, test_RMSE acc ! 0, coefs acc ! 0) \<and>
      grid_entry (Ridge example_lm) [[-1], [1]] [-4, 4] [[0]] [3] ([1, 2] ! 1) =
        Inr (train_RMSE acc ! 1, test_RMSE acc ! 1, coefs acc ! 1)) \<and>
   (\<exists>acc r. l1_loop example_lm [[-1], [1]] [-4, 4] [[0]] [3] [1, 2] no_lists = Inr acc \<and>
      test_regularization_l1 example_lm [[-1], [1]] [-4, 4] [[0]] [3] [1, 2] =
        \<lparr>plotted = plot_regularization [1, 2] (train_RMSE acc) (test_RMSE acc) (coefs acc)
                     (fst r) rmse_title,
         returned = Inr r\<rparr> \<and>
      length (train_RMSE acc) = length [1, 2 :: real] \<and>
      length (test_RMSE acc) = length [1, 2 :: real] \<and>
      length (coefs acc) = length [1, 2 :: real] \<and>
      grid_entry (Lasso example_lm) [[-1], [1]] [-4, 4] [[0]] [3] ([1, 2] ! 0) =
        Inr (train_RMSE acc ! 0, test_RMSE acc ! 0, coefs acc ! 0) \<and>
      grid_entry (Lasso example_lm) [[-1], [1]] [-4, 4] [[0]] [3] ([1, 2] ! 1) =
        Inr (train_RMSE acc ! 1, test_RMSE acc ! 1, coefs acc ! 1))"
proof -
  have v2: "valid_input (Ridge example_lm) [[-1], [1]] [-4, 4] [[0]] [3] [1, 2]"
    by (simp add: valid_input_def well_fitted_def example_defs)
  have v1: "valid_input (Lasso example_lm) [[-1], [1]] [-4, 4] [[0]] [3] [1, 2]"
    by (simp add: valid_input_def well_fitted_def example_defs)
  note t = one_entry_per_penalty_in_grid_order
    [of example_lm "[[-1], [1]]" "[-4, 4]" "[[0]]" "[3]" "[1, 2]"]
  from t v2 obtain acc2 r2 where
    a2: "l2_loop example_lm [[-1], [1]] [-4, 4] [[0]] [3] [1, 2] no_lists = Inr acc2 \<and>
      test_regularization_l2 example_lm [[-1], [1]] [-4, 4] [[0]] [3] [1, 2] =
        \<lparr>plotted = plot_regularization [1, 2] (train_RMSE acc2) (test_RMSE acc2) (coefs acc2)
                     (fst r2) rmse_title,
         returned = Inr r2\<rparr> \<and>
      length (train_RMSE acc2) = length [1, 2 :: real] \<and>
      length (test_RMSE acc2) = length [1, 2 :: real] \<and>
      length (coefs acc2) = length [1, 2 :: real] \<and>
      (\<forall>i<length [1, 2 :: real].
         grid_entry (Ridge example_lm) [[-1], [1]] [-4, 4] [[0]] [3] ([1, 2] ! i) =
           Inr (train_RMSE acc2 ! i, test_RMSE acc2 ! i, coefs acc2 ! i))"
    by blast
  from t v1 obtain acc1 r1 where
    a1: "l1_loop example_lm [[-1], [1]] [-4, 4] [[0]] [3] [1, 2] no_lists = Inr acc1 \<and>
      test_regularization_l1 example_lm [[-1], [1]] [-4, 4] [[0]] [3] [1, 2] =
        \<lparr>plotted = plot_regularization [1, 2] (train_RMSE acc1) (test_RMSE acc1) (coefs acc1)
                     (fst r1) rmse_title,
         returned = Inr r1\<rparr> \<and>
      length (train_RMSE acc1) = length [1, 2 :: real] \<and>
      length (test_RMSE acc1) = length [1, 2 :: real] \<and>
      length (coefs acc1) = length [1, 2 :: real] \<and>
      (\<forall>i<length [1, 2 :: real].
         grid_entry (Lasso example_lm) [[-1], [1]] [-4, 4] [[0]] [3] ([1, 2] ! i) =
           Inr (train_RMSE acc1 ! i, test_RMSE acc1 ! i, coefs acc1 ! i))"
    by blast
  from a2 have e2: "grid_entry (Ridge example_lm) [[-1], [1]] [-4, 4] [[0]] [3] ([1, 2] ! 0) =
        Inr (train_RMSE acc2 ! 0, test_RMSE acc2 ! 0, coefs acc2 ! 0) \<and>
      grid_entry (Ridge example_lm) [[-1], [1]] [-4, 4] [[0]] [3] ([1, 2] ! 1) =
        Inr (train_RMSE acc2 ! 1, test_RMSE acc2 ! 1, coefs acc2 ! 1)"
    by (metis length_Cons lessI less_Suc_eq list.size(3) One_nat_def)
  from a1 have e1: "grid_entry (Lasso example_lm) [[-1], [1]] [-4, 4] [[0]] [3] ([1, 2] ! 0) =
        Inr (train_RMSE acc1 ! 0, test_RMSE acc1 ! 0, coefs acc1 ! 0) \<and>
      grid_entry (Lasso example_lm) [[-1], [1]] [-4, 4] [[0]] [3] ([1, 2] ! 1) =
        Inr (train_RMSE acc1 ! 1, test_RMSE acc1 ! 1, coefs acc1 ! 1)"
    by (metis length_Cons lessI less_Suc_eq list.size(3) One_nat_def)
  from v2 v1 a2 e2 a1 e1 show ?thesis by blast
qed

text \<open>
  C10. \<^verbatim>\<open>test_regularization_l1\<close> with a solver \<open>s\<close> in the place of Lasso and
  \<^verbatim>\<open>test_regularization_l2\<close> with the same \<open>s\<close> in the place of Ridge give the same
  outcome on every input: the same value or exception and the same plots. The two
  functions differ in the estimator they construct and in nothing else.
\<close>

theorem l1_is_l2_with_the_other_solver:
  "test_regularization_l1 \<lparr>Ridge = r, Lasso = s\<rparr> x_train y_train x_test y_test g =
   test_regularization_l2 \<lparr>Ridge = s, Lasso = r'\<rparr> x_train y_train x_test y_test g"
  by (simp add: test_regularization_l1_def test_regularization_l2_def
      l1_loop_collect l2_loop_collect)

text \<open>
  The same with the example solvers exchanged.
\<close>

theorem l1_is_l2_with_the_other_solver_witness:
  "test_regularization_l1 \<lparr>Ridge = Ridge example_lm, Lasso = Lasso example_lm\<rparr>
     [[-1], [1]] [-4, 4] [[0]] [3] [1, 2] =
   test_regularization_l2 \<lparr>Ridge = Lasso example_lm, Lasso = Ridge example_lm\<rparr>
     [[-1], [1]] [-4, 4] [[0]] [3] [1, 2]"
  by (rule l1_is_l2_with_the_other_solver)

end
